theory Spec2Isabelle
  imports Main
begin

section \<open>JavaScript values and objects\<close>

text \<open>
  Request bodies, property values, action inputs and identifiers are JSON values.
  Numbers are integers here; no operation of the verified code does arithmetic on them.
\<close>

datatype json =
  JNull
  | JBool bool
  | JNum int
  | JStr string
  | JArr "json list"
  | JObj "(string \<times> json) list"

text \<open>The errors a call can raise.\<close>

datatype js_error =
  SyntaxError
  | TypeError
  | InvalidValue

text \<open>A call either returns a value or throws.\<close>

datatype 'a result =
  Ok 'a
  | Throw js_error

text \<open>JavaScript truthiness, as the operators \<open>||\<close> and \<open>if\<close> read a value.\<close>

fun truthy :: "json \<Rightarrow> bool" where
  "truthy JNull = False"
| "truthy (JBool b) = b"
| "truthy (JNum n) = (n \<noteq> 0)"
| "truthy (JStr s) = (s \<noteq> [])"
| "truthy (JArr xs) = True"
| "truthy (JObj kvs) = True"

text \<open>Decimal rendering of a natural number, as a template literal prints an index.\<close>

definition digit_char :: "nat \<Rightarrow> char" where
  "digit_char d = ''0123456789'' ! d"

fun show_nat :: "nat \<Rightarrow> string" where
  "show_nat n = (if n < 10 then [digit_char n] else show_nat (n div 10) @ [digit_char (n mod 10)])"

definition is_digit :: "char \<Rightarrow> bool" where
  "is_digit c = (c \<in> set ''0123456789'')"

definition digit_val :: "char \<Rightarrow> int" where
  "digit_val c = of_char c - 48"

definition digits_val :: "string \<Rightarrow> int" where
  "digits_val s = foldl (\<lambda>acc c. 10 * acc + digit_val c) 0 s"

text \<open>
  An array index is a canonical decimal string below \<open>2^32 - 1\<close>. An object enumerates
  its array-index keys first, in ascending numeric order, and its other string keys after
  them in the order they were created.
\<close>

definition array_index :: "string \<Rightarrow> int option" where
  "array_index s =
     (if s \<noteq> [] \<and> list_all is_digit s \<and> (s = ''0'' \<or> hd s \<noteq> CHR ''0'')
         \<and> digits_val s < 4294967295
      then Some (digits_val s) else None)"

definition key_before :: "string \<Rightarrow> string \<Rightarrow> bool" where
  "key_before k k' =
     (case array_index k of
        None \<Rightarrow> False
      | Some n \<Rightarrow> (case array_index k' of None \<Rightarrow> True | Some n' \<Rightarrow> n < n'))"

text \<open>
  An object is the list of its own enumerable members in enumeration order
  (the order of \<open>for ... in\<close> and \<open>Object.keys\<close>).
\<close>

type_synonym 'v jsobj = "(string \<times> 'v) list"

definition hasOwnProperty :: "'v jsobj \<Rightarrow> string \<Rightarrow> bool" where
  "hasOwnProperty obj k = (map_of obj k \<noteq> None)"

definition obj_get :: "'v jsobj \<Rightarrow> string \<Rightarrow> 'v option" where
  "obj_get obj k = map_of obj k"

definition obj_keys :: "'v jsobj \<Rightarrow> string list" where
  "obj_keys obj = map fst obj"

fun obj_update :: "'v jsobj \<Rightarrow> string \<Rightarrow> 'v \<Rightarrow> 'v jsobj" where
  "obj_update [] k v = []"
| "obj_update ((k', v') # kvs) k v =
     (if k' = k then (k, v) # kvs else (k', v') # obj_update kvs k v)"

fun obj_insert :: "'v jsobj \<Rightarrow> string \<Rightarrow> 'v \<Rightarrow> 'v jsobj" where
  "obj_insert [] k v = [(k, v)]"
| "obj_insert ((k', v') # kvs) k v =
     (if key_before k k' then (k, v) # (k', v') # kvs else (k', v') # obj_insert kvs k v)"

text \<open>The assignment \<open>obj[k] = v\<close>: an existing member keeps its place, a new one is created.\<close>

definition obj_set :: "'v jsobj \<Rightarrow> string \<Rightarrow> 'v \<Rightarrow> 'v jsobj" where
  "obj_set obj k v = (if hasOwnProperty obj k then obj_update obj k v else obj_insert obj k v)"



text \<open>
  Members of a parsed JSON value, as \<open>hasOwnProperty\<close>, member access and \<open>for ... in\<close>
  see them. \<open>null\<close> has no members and reading one from it throws; a number or a boolean
  has none; an array and a string have their indices and \<open>length\<close>.
\<close>

definition index_keys :: "nat \<Rightarrow> string list" where
  "index_keys n = map show_nat [0..<n]"

fun json_hasOwn :: "json \<Rightarrow> string \<Rightarrow> bool result" where
  "json_hasOwn JNull k = Throw TypeError"
| "json_hasOwn (JBool b) k = Ok False"
| "json_hasOwn (JNum n) k = Ok False"
| "json_hasOwn (JStr s) k = Ok (k = ''length'' \<or> k \<in> set (index_keys (length s)))"
| "json_hasOwn (JArr xs) k = Ok (k = ''length'' \<or> k \<in> set (index_keys (length xs)))"
| "json_hasOwn (JObj kvs) k = Ok (hasOwnProperty kvs k)"

text \<open>Member access \<open>v[k]\<close> for a key that \<open>json_hasOwn\<close> found.\<close>

fun json_member :: "json \<Rightarrow> string \<Rightarrow> json" where
  "json_member (JObj kvs) k = (case obj_get kvs k of Some v \<Rightarrow> v | None \<Rightarrow> JNull)"
| "json_member (JArr xs) k =
     (if k = ''length'' then JNum (int (length xs))
      else if digits_val k < int (length xs) then xs ! nat (digits_val k) else JNull)"
| "json_member (JStr s) k =
     (if k = ''length'' then JNum (int (length s))
      else if digits_val k < int (length s) then JStr [s ! nat (digits_val k)] else JNull)"
| "json_member v k = JNull"


section \<open>The entity model\<close>

text \<open>A subscriber is an opaque sink; the model knows it by a handle.\<close>

type_synonym subscriber = nat

record link =
  link_rel :: string
  link_href :: string
  link_mediaType :: "string option"

text \<open>
  The member \<open>@type\<close> of a metadata object is an array of strings or one string.
\<close>

datatype at_type =
  TypeList "string list"
  | TypeScalar string

text \<open>
  A metadata object (of a property, an available action or an available event): the members
  the verified code reads, each absent or present, and the remaining members.
\<close>

record metadata =
  meta_at_type :: "at_type option"
  meta_title :: "string option"
  meta_input :: "json option"
  meta_links :: "link list option"
  meta_other :: "json jsobj"

definition empty_metadata :: metadata where
  "empty_metadata =
     \<lparr>meta_at_type = None, meta_title = None, meta_input = None, meta_links = None,
      meta_other = []\<rparr>"

text \<open>
  Modelled from the spec: the class Property is not among the sources. A property wraps a
  single mutable value plus metadata, and carries the href prefix of its Thing.
\<close>

record property =
  prop_name :: string
  prop_value :: json
  prop_metadata :: metadata
  prop_hrefPrefix :: string

datatype status =
  Created
  | Pending
  | Completed

text \<open>
  Modelled from the spec: the class Action is not among the sources. An instance has an
  identifier, the action name, the input payload and a status; the back reference to the
  owning Thing is implicit in the model (an action lives in its Thing), and the two time
  stamps are left out (they read the clock).
\<close>

record action =
  act_id :: json
  act_name :: string
  act_input :: json
  act_status :: status
  act_hrefPrefix :: string

text \<open>
  Modelled from the spec: the class Event is not among the sources; an event is an
  immutable record of name, data and time stamp.
\<close>

record event =
  ev_name :: string
  ev_data :: json
  ev_time :: nat

text \<open>
  An executable class registered for an action name is known by the action name its
  constructor hands to the Action constructor (\<open>'test'\<close> for TestTimerAction, \<open>'fade'\<close>
  for FadeAction); the identifier it chooses is an argument of \<open>performAction\<close> below.
\<close>

type_synonym action_class = string

record action_type =
  at_metadata :: metadata
  at_class :: action_class

record event_type =
  et_metadata :: metadata
  et_subscribers :: "subscriber list"

text \<open>
  The messages handed to subscribers, before \<open>JSON.stringify\<close>: the message type with
  its data.
\<close>

datatype message =
  PropertyStatus string json
  | ActionStatus action
  | EventMessage event

text \<open>
  What a Thing does to the world outside its own fields: a message a subscriber accepted,
  the change callback of a property value, a cancelled action, a started action.
\<close>

datatype effect =
  Sent subscriber message
  | Forwarded string json
  | Cancelled action
  | Started action

text \<open>
  The fields of class Thing, and \<open>effects\<close>: the trace of the calls into the world
  outside, in the order they were made.
\<close>

record thing =
  thing_id :: string
  title :: string
  context_uri :: string
  thing_type :: "string list"
  thing_description :: string
  properties :: "property jsobj"
  availableActions :: "action_type jsobj"
  availableEvents :: "event_type jsobj"
  actions :: "action list jsobj"
  events :: "event list"
  subscribers :: "subscriber list"
  hrefPrefix :: string
  uiHref :: "string option"
  effects :: "effect list"

text \<open>
  The external collaborators, as parameters: the schema validator \<open>ajv.validate(schema,
  data)\<close>; the check of a value against a property's declared constraints; whether
  \<open>subscriber.send(message)\<close> returns (\<open>True\<close>) or throws; the renderers
  \<open>asPropertyDescription\<close> and \<open>asActionDescription\<close> of the classes that are not among
  the sources.
\<close>

record externals =
  validate :: "json \<Rightarrow> json \<Rightarrow> bool"
  satisfies :: "metadata \<Rightarrow> json \<Rightarrow> bool"
  send_ok :: "subscriber \<Rightarrow> message \<Rightarrow> bool"
  asPropertyDescription :: "property \<Rightarrow> metadata"
  asActionDescription :: "action \<Rightarrow> json"

text \<open>The constructor; \<open>type\<close> is given as the array the constructor turns it into.\<close>

definition Thing_new :: "string \<Rightarrow> string \<Rightarrow> string list \<Rightarrow> string \<Rightarrow> thing" where
  "Thing_new i ttl ty descr =
     \<lparr>thing_id = i, title = ttl, context_uri = ''https://iot.mozilla.org/schemas'',
      thing_type = ty, thing_description = descr, properties = [], availableActions = [],
      availableEvents = [], actions = [], events = [], subscribers = [], hrefPrefix = [],
      uiHref = None, effects = []\<rparr>"

definition getHref :: "thing \<Rightarrow> string" where
  "getHref t = (if hrefPrefix t \<noteq> [] then hrefPrefix t else ''/'')"

text \<open>
  Modelled from the spec: \<open>setHrefPrefix\<close> of Property and of Action, classes that are not
  among the sources. The prefix of a Thing is handed down to its properties and its live
  actions.
\<close>

definition property_setHrefPrefix :: "string \<Rightarrow> property \<Rightarrow> property" where
  "property_setHrefPrefix prefix p = p\<lparr>prop_hrefPrefix := prefix\<rparr>"

definition action_setHrefPrefix :: "string \<Rightarrow> action \<Rightarrow> action" where
  "action_setHrefPrefix prefix a = a\<lparr>act_hrefPrefix := prefix\<rparr>"

definition setHrefPrefix :: "thing \<Rightarrow> string \<Rightarrow> thing" where
  "setHrefPrefix t prefix =
     t\<lparr>hrefPrefix := prefix,
       properties := map (\<lambda>(n, p). (n, property_setHrefPrefix prefix p)) (properties t),
       actions := map (\<lambda>(n, l). (n, map (action_setHrefPrefix prefix) l)) (actions t)\<rparr>"

definition addProperty :: "thing \<Rightarrow> property \<Rightarrow> thing" where
  "addProperty t p =
     t\<lparr>properties :=
         obj_set (properties t) (prop_name p) (property_setHrefPrefix (hrefPrefix t) p)\<rparr>"

definition findProperty :: "thing \<Rightarrow> string \<Rightarrow> property option" where
  "findProperty t propertyName =
     (if hasOwnProperty (properties t) propertyName then obj_get (properties t) propertyName
      else None)"

text \<open>Modelled from the spec: \<open>Property.getValue\<close> returns the wrapped value.\<close>

definition getValue :: "property \<Rightarrow> json" where
  "getValue p = prop_value p"

definition getProperty :: "thing \<Rightarrow> string \<Rightarrow> json" where
  "getProperty t propertyName =
     (case findProperty t propertyName of Some prop \<Rightarrow> getValue prop | None \<Rightarrow> JNull)"

definition getProperties :: "thing \<Rightarrow> json jsobj" where
  "getProperties t = foldl (\<lambda>props (name, p). obj_set props name (getValue p)) [] (properties t)"

definition hasProperty :: "thing \<Rightarrow> string \<Rightarrow> bool" where
  "hasProperty t propertyName = hasOwnProperty (properties t) propertyName"

text \<open>
  One turn of the notification loops: \<open>try { subscriber.send(message); } catch (e) { }\<close>.
\<close>

definition deliver :: "externals \<Rightarrow> message \<Rightarrow> thing \<Rightarrow> subscriber \<Rightarrow> thing" where
  "deliver X m t s = (if send_ok X s m then t\<lparr>effects := effects t @ [Sent s m]\<rparr> else t)"

definition propertyNotify :: "externals \<Rightarrow> thing \<Rightarrow> property \<Rightarrow> thing" where
  "propertyNotify X t p =
     foldl (deliver X (PropertyStatus (prop_name p) (getValue p))) t (subscribers t)"

definition actionNotify :: "externals \<Rightarrow> thing \<Rightarrow> action \<Rightarrow> thing" where
  "actionNotify X t a = foldl (deliver X (ActionStatus a)) t (subscribers t)"


text \<open>
  Modelled from the spec: \<open>Property.setValue\<close> rejects (throws) a value that does not
  satisfy the property's declared constraints, and stores it otherwise.
\<close>

definition setValue :: "externals \<Rightarrow> property \<Rightarrow> json \<Rightarrow> property result" where
  "setValue X p v =
     (if satisfies X (prop_metadata p) v then Ok (p\<lparr>prop_value := v\<rparr>) else Throw InvalidValue)"

text \<open>
  \<open>setProperty\<close> finds the property and calls its \<open>setValue\<close>; an exception of
  \<open>setValue\<close> leaves the method as it is. The property object is the Thing's own, so its
  new value is the Thing's. What a successful \<open>setValue\<close> sets off is modelled from the
  spec (it happens in the classes Property and Value): the value reaches the change
  callback, and the Thing's subscribers are notified through \<open>propertyNotify\<close>.
\<close>

definition setProperty :: "externals \<Rightarrow> thing \<Rightarrow> string \<Rightarrow> json \<Rightarrow> unit result \<times> thing" where
  "setProperty X t propertyName v =
     (case findProperty t propertyName of
        None \<Rightarrow> (Ok (), t)
      | Some prop \<Rightarrow>
          (case setValue X prop v of
             Throw e \<Rightarrow> (Throw e, t)
           | Ok prop' \<Rightarrow>
               (Ok (),
                propertyNotify X
                  (t\<lparr>properties := obj_set (properties t) propertyName prop',
                     effects := effects t @ [Forwarded (prop_name prop') v]\<rparr>)
                  prop')))"



definition addAvailableEvent :: "thing \<Rightarrow> string \<Rightarrow> metadata option \<Rightarrow> thing" where
  "addAvailableEvent t name md =
     t\<lparr>availableEvents :=
         obj_set (availableEvents t) name
           \<lparr>et_metadata = (case md of None \<Rightarrow> empty_metadata | Some m \<Rightarrow> m),
            et_subscribers = []\<rparr>\<rparr>"

text \<open>
  Modelled from the spec: the Action constructor makes an instance in state \<open>created\<close>.
\<close>

definition Action_new :: "json \<Rightarrow> string \<Rightarrow> json \<Rightarrow> action" where
  "Action_new aid name inp =
     \<lparr>act_id = aid, act_name = name, act_input = inp, act_status = Created,
      act_hrefPrefix = []\<rparr>"

text \<open>
  \<open>performAction\<close>; \<open>aid\<close> is the identifier the registered class gives the new
  instance. \<open>Ok None\<close> is the bare \<open>return\<close>. Pushing onto \<open>this.actions[actionName]\<close>
  throws when that list does not exist.
\<close>

definition performAction ::
  "externals \<Rightarrow> json \<Rightarrow> thing \<Rightarrow> string \<Rightarrow> json \<Rightarrow> action option result \<times> thing" where
  "performAction X aid t actionName input0 =
     (let inp = (if truthy input0 then input0 else JNull) in
      case obj_get (availableActions t) actionName of
        None \<Rightarrow> (Ok None, t)
      | Some actionType \<Rightarrow>
          if (case meta_input (at_metadata actionType) of
                Some schema \<Rightarrow> \<not> validate X schema inp
              | None \<Rightarrow> False)
          then (Ok None, t)
          else
            (let a = action_setHrefPrefix (hrefPrefix t)
                       (Action_new aid (at_class actionType) inp);
                 t1 = actionNotify X t a
             in case obj_get (actions t1) actionName of
                  None \<Rightarrow> (Throw TypeError, t1)
                | Some l \<Rightarrow>
                    (Ok (Some a), t1\<lparr>actions := obj_set (actions t1) actionName (l @ [a])\<rparr>)))"



definition addAvailableAction ::
  "thing \<Rightarrow> string \<Rightarrow> metadata option \<Rightarrow> action_class \<Rightarrow> thing" where
  "addAvailableAction t name md cls =
     t\<lparr>availableActions :=
         obj_set (availableActions t) name
           \<lparr>at_metadata = (case md of None \<Rightarrow> empty_metadata | Some m \<Rightarrow> m), at_class = cls\<rparr>,
       actions := obj_set (actions t) name []\<rparr>"



section \<open>The description renderer\<close>

text \<open>
  A Thing Description, as \<open>asThingDescription\<close> builds it and \<open>getDescription\<close> completes
  it. The members that are not always there are options.
\<close>

record td =
  td_id :: string
  td_title :: string
  td_context :: string
  td_type :: "string list"
  td_properties :: "metadata jsobj"
  td_actions :: "metadata jsobj"
  td_events :: "metadata jsobj"
  td_links :: "link list"
  td_description :: "string option"
  td_href :: "string option"
  td_base :: "string option"
  td_securityDefinitions :: "json option"
  td_security :: "string option"

definition getPropertyDescriptions :: "externals \<Rightarrow> thing \<Rightarrow> metadata jsobj" where
  "getPropertyDescriptions X t =
     foldl (\<lambda>descriptions (name, p). obj_set descriptions name (asPropertyDescription X p)) []
       (properties t)"

definition action_link :: "thing \<Rightarrow> string \<Rightarrow> link" where
  "action_link t name =
     \<lparr>link_rel = ''action'', link_href = hrefPrefix t @ ''/actions/'' @ name,
      link_mediaType = None\<rparr>"

definition event_link :: "thing \<Rightarrow> string \<Rightarrow> link" where
  "event_link t name =
     \<lparr>link_rel = ''event'', link_href = hrefPrefix t @ ''/events/'' @ name,
      link_mediaType = None\<rparr>"

definition thing_links :: "thing \<Rightarrow> link list" where
  "thing_links t =
     [\<lparr>link_rel = ''properties'', link_href = hrefPrefix t @ ''/properties'',
       link_mediaType = None\<rparr>,
      \<lparr>link_rel = ''actions'', link_href = hrefPrefix t @ ''/actions'', link_mediaType = None\<rparr>,
      \<lparr>link_rel = ''events'', link_href = hrefPrefix t @ ''/events'', link_mediaType = None\<rparr>]
     @ (case uiHref t of
          None \<Rightarrow> []
        | Some h \<Rightarrow>
            if h \<noteq> [] then
              [\<lparr>link_rel = ''alternate'', link_href = h, link_mediaType = Some ''text/html''\<rparr>]
            else [])"

text \<open>
  The two loops over the catalogs put the catalog's own metadata object into the
  description and then set its \<open>links\<close>: the description gets the linked metadata, and so
  does the catalog.
\<close>

definition linked_action :: "thing \<Rightarrow> string \<Rightarrow> action_type \<Rightarrow> action_type" where
  "linked_action t name atype =
     atype\<lparr>at_metadata := (at_metadata atype)\<lparr>meta_links := Some [action_link t name]\<rparr>\<rparr>"

definition linked_event :: "thing \<Rightarrow> string \<Rightarrow> event_type \<Rightarrow> event_type" where
  "linked_event t name etype =
     etype\<lparr>et_metadata := (et_metadata etype)\<lparr>meta_links := Some [event_link t name]\<rparr>\<rparr>"

definition asThingDescription :: "externals \<Rightarrow> thing \<Rightarrow> td \<times> thing" where
  "asThingDescription X t =
     (\<lparr>td_id = thing_id t, td_title = title t, td_context = context_uri t,
       td_type = thing_type t,
       td_properties = getPropertyDescriptions X t,
       td_actions =
         foldl (\<lambda>d (name, atype). obj_set d name (at_metadata (linked_action t name atype))) []
           (availableActions t),
       td_events =
         foldl (\<lambda>d (name, etype). obj_set d name (et_metadata (linked_event t name etype))) []
           (availableEvents t),
       td_links = thing_links t,
       td_description = (if thing_description t \<noteq> [] then Some (thing_description t) else None),
       td_href = None, td_base = None, td_securityDefinitions = None, td_security = None\<rparr>,
      t\<lparr>availableActions := map (\<lambda>(name, atype). (name, linked_action t name atype))
                               (availableActions t),
        availableEvents := map (\<lambda>(name, etype). (name, linked_event t name etype))
                              (availableEvents t)\<rparr>)"

text \<open>A request: the route parameters, the Uri-Host option, the payload.\<close>

datatype payload =
  NotJson
  | Json json

record request =
  req_thingId :: "string option"
  req_propertyName :: string
  req_actionName :: string
  req_actionId :: string
  req_host :: "string option"
  req_payload :: payload

definition protocol :: string where
  "protocol = ''coap''"

text \<open>A template literal prints a missing string as \<open>undefined\<close>.\<close>

definition template :: "string option \<Rightarrow> string" where
  "template s = (case s of None \<Rightarrow> ''undefined'' | Some x \<Rightarrow> x)"

definition getDescription :: "externals \<Rightarrow> request \<Rightarrow> thing \<Rightarrow> td \<times> thing" where
  "getDescription X req t =
     (let (description, t') = asThingDescription X t;
          description1 =
            (if getHref t' \<noteq> ''/'' then description\<lparr>td_href := Some (getHref t')\<rparr>
             else description)
      in (description1
            \<lparr>td_base := Some (protocol @ ''://'' @ template (req_host req) @ getHref t'),
             td_securityDefinitions :=
               Some (JObj [(''nosec_sc'', JObj [(''scheme'', JStr ''nosec'')])]),
             td_security := Some ''nosec_sc''\<rparr>,
          t'))"

section \<open>The link-format encoder\<close>














section \<open>The registry and the server shell\<close>

text \<open>
  Modelled from the spec: the classes SingleThing and MultipleThings are not among the
  sources. A registry holds exactly one Thing, or an ordered sequence of Things and a
  group name; lookup is by index.
\<close>

datatype registry =
  SingleThing thing
  | MultipleThings "thing list" string


definition thing_index :: "string option \<Rightarrow> nat option" where
  "thing_index idx =
     (case idx of
        None \<Rightarrow> None
      | Some s \<Rightarrow> if s \<noteq> [] \<and> list_all is_digit s then Some (nat (digits_val s)) else None)"

fun getThing :: "registry \<Rightarrow> string option \<Rightarrow> thing option" where
  "getThing (SingleThing t) idx = Some t"
| "getThing (MultipleThings ts name) idx =
     (case thing_index idx of
        None \<Rightarrow> None
      | Some i \<Rightarrow> if i < length ts then Some (ts ! i) else None)"

text \<open>
  A handler changes the Thing it resolved in place; in the model the changed Thing is put
  back where \<open>getThing\<close> found it.
\<close>

fun putThing :: "registry \<Rightarrow> string option \<Rightarrow> thing \<Rightarrow> registry" where
  "putThing (SingleThing t) idx t' = SingleThing t'"
| "putThing (MultipleThings ts name) idx t' =
     (case thing_index idx of
        None \<Rightarrow> MultipleThings ts name
      | Some i \<Rightarrow> MultipleThings (ts[i := t']) name)"


text \<open>\<open>basePath.replace(/\/$/, '')\<close>\<close>

definition strip_slash :: "string \<Rightarrow> string" where
  "strip_slash s = (if s \<noteq> [] \<and> last s = CHR ''/'' then butlast s else s)"

text \<open>
  The part of the constructor of CoapWebThingServer that touches the registry: every
  Thing gets its href prefix.
\<close>

fun CoapWebThingServer :: "registry \<Rightarrow> string \<Rightarrow> registry" where
  "CoapWebThingServer (MultipleThings ts name) basePath =
     MultipleThings
       (map (\<lambda>(i, t). setHrefPrefix t (strip_slash basePath @ ''/'' @ show_nat i))
          (enumerate 0 ts))
       name"
| "CoapWebThingServer (SingleThing t) basePath =
     SingleThing (setHrefPrefix t (strip_slash basePath))"

section \<open>The resource handlers\<close>

datatype body =
  JsonBody json
  | TextBody string

text \<open>
  What a handler leaves in the response object: the status code it set (if it set one),
  the Content-Format option, the payload.
\<close>

record response =
  statusCode :: "nat option"
  contentFormat :: "string option"
  res_payload :: "body option"

definition status_only :: "nat \<Rightarrow> response" where
  "status_only code = \<lparr>statusCode = Some code, contentFormat = None, res_payload = None\<rparr>"

text \<open>\<open>res.json(object)\<close>, with the status code set before it, if any.\<close>

definition res_json :: "nat option \<Rightarrow> json \<Rightarrow> response" where
  "res_json code obj =
     \<lparr>statusCode = code, contentFormat = Some ''application/json'',
      res_payload = Some (JsonBody obj)\<rparr>"


definition getBody :: "request \<Rightarrow> json result" where
  "getBody req = (case req_payload req of NotJson \<Rightarrow> Throw SyntaxError | Json v \<Rightarrow> Ok v)"



definition CoapPropertiesHandler_get ::
  "registry \<Rightarrow> request \<Rightarrow> response result \<times> registry" where
  "CoapPropertiesHandler_get things req =
     (case getThing things (req_thingId req) of
        None \<Rightarrow> (Ok (status_only 404), things)
      | Some thing \<Rightarrow> (Ok (res_json None (JObj (getProperties thing))), things))"

definition CoapPropertyHandler_get ::
  "registry \<Rightarrow> request \<Rightarrow> response result \<times> registry" where
  "CoapPropertyHandler_get things req =
     (case getThing things (req_thingId req) of
        None \<Rightarrow> (Ok (status_only 404), things)
      | Some thing \<Rightarrow>
          (let propertyName = req_propertyName req in
           if hasProperty thing propertyName then
             (Ok (res_json None (JObj [(propertyName, getProperty thing propertyName)])), things)
           else (Ok (status_only 404), things)))"

definition CoapPropertyHandler_put ::
  "externals \<Rightarrow> registry \<Rightarrow> request \<Rightarrow> response result \<times> registry" where
  "CoapPropertyHandler_put X things req =
     (case getThing things (req_thingId req) of
        None \<Rightarrow> (Ok (status_only 404), things)
      | Some thing \<Rightarrow>
          (let propertyName = req_propertyName req in
           case getBody req of
             Throw e \<Rightarrow> (Throw e, things)
           | Ok body \<Rightarrow>
               (case json_hasOwn body propertyName of
                  Throw e \<Rightarrow> (Throw e, things)
                | Ok False \<Rightarrow> (Ok (status_only 400), things)
                | Ok True \<Rightarrow>
                    if hasProperty thing propertyName then
                      (case setProperty X thing propertyName (json_member body propertyName) of
                         (Throw e, thing') \<Rightarrow>
                           (Ok (status_only 400), putThing things (req_thingId req) thing')
                       | (Ok u, thing') \<Rightarrow>
                           (Ok (res_json None
                                  (JObj [(propertyName, getProperty thing' propertyName)])),
                            putThing things (req_thingId req) thing'))
                    else (Ok (status_only 404), things))))"








section \<open>Notions the properties are stated with\<close>


text \<open>
  Every available action has its in-flight list: \<open>addAvailableAction\<close> makes both, and
  no method removes either.
\<close>

definition lists_present :: "thing \<Rightarrow> bool" where
  "lists_present t = (set (obj_keys (availableActions t)) \<subseteq> set (obj_keys (actions t)))"









section \<open>Concrete Things and collaborators\<close>

text \<open>
  A validator for the keyword \<open>type\<close> alone, standing in for the schema validator where a
  concrete one is needed: a schema without a string-valued \<open>type\<close> accepts everything.
\<close>

fun type_matches :: "string \<Rightarrow> json \<Rightarrow> bool" where
  "type_matches ty JNull = (ty = ''null'')"
| "type_matches ty (JBool b) = (ty = ''boolean'')"
| "type_matches ty (JNum n) = (ty = ''integer'' \<or> ty = ''number'')"
| "type_matches ty (JStr s) = (ty = ''string'')"
| "type_matches ty (JArr xs) = (ty = ''array'')"
| "type_matches ty (JObj kvs) = (ty = ''object'')"

definition validate_type :: "json \<Rightarrow> json \<Rightarrow> bool" where
  "validate_type schema v =
     (case json_member schema ''type'' of JStr ty \<Rightarrow> type_matches ty v | _ \<Rightarrow> True)"

text \<open>
  Concrete collaborators: the \<open>type\<close> validator for action inputs and for property values
  (the property's \<open>type\<close> is among the remaining members of its metadata), a subscriber 2
  whose \<open>send\<close> throws, a property description that is the metadata with the link to the
  property, and an action description keyed by the action's name.
\<close>

definition X0 :: externals where
  "X0 =
     \<lparr>validate = validate_type,
      satisfies = (\<lambda>md v. validate_type (JObj (meta_other md)) v),
      send_ok = (\<lambda>s m. s \<noteq> 2),
      asPropertyDescription =
        (\<lambda>p. (prop_metadata p)
                \<lparr>meta_links :=
                   Some [\<lparr>link_rel = ''property'',
                          link_href = prop_hrefPrefix p @ ''/properties/'' @ prop_name p,
                          link_mediaType = None\<rparr>]\<rparr>),
      asActionDescription =
        (\<lambda>a. JObj [(act_name a, JObj [(''input'', act_input a)])])\<rparr>"

text \<open>The Lamp of the server tests.\<close>

definition on_property :: property where
  "on_property =
     \<lparr>prop_name = ''on'', prop_value = JBool True,
      prop_metadata =
        \<lparr>meta_at_type = Some (TypeScalar ''OnOffProperty''), meta_title = Some ''On/Off'',
         meta_input = None, meta_links = None,
         meta_other =
           [(''type'', JStr ''boolean''),
            (''description'', JStr ''Whether the lamps is turned on'')]\<rparr>,
      prop_hrefPrefix = []\<rparr>"

definition timer_metadata :: metadata where
  "timer_metadata =
     \<lparr>meta_at_type = None, meta_title = Some ''Switch Off Timer'',
      meta_input = Some (JObj [(''type'', JStr ''object'')]), meta_links = None,
      meta_other = [(''description'', JStr ''Switch off lamp after given duration'')]\<rparr>"

definition overheated_metadata :: metadata where
  "overheated_metadata =
     \<lparr>meta_at_type = None, meta_title = None, meta_input = None, meta_links = None,
      meta_other =
        [(''description'', JStr ''The lamp has exceeded its safe operating temperature''),
         (''type'', JStr ''number''), (''unit'', JStr ''degree celsius'')]\<rparr>"

definition Lamp :: thing where
  "Lamp =
     addAvailableEvent
       (addAvailableAction
          (addProperty (Thing_new ''Lamp'' ''Lamp'' [''OnOffSwitch''] ''Lamp'') on_property)
          ''SwitchOffTimer'' (Some timer_metadata) ''test'')
       ''overheated'' (Some overheated_metadata)"

definition singleThingServer :: registry where
  "singleThingServer = CoapWebThingServer (SingleThing Lamp) ''/''"





text \<open>A request with no route parameters and no payload, from which the others are made.\<close>

definition base_request :: request where
  "base_request =
     \<lparr>req_thingId = None, req_propertyName = [], req_actionName = [], req_actionId = [],
      req_host = Some ''localhost'', req_payload = NotJson\<rparr>"

text \<open>A Thing with an action whose input is a boolean.\<close>

definition toggle_metadata :: metadata where
  "toggle_metadata = empty_metadata\<lparr>meta_input := Some (JObj [(''type'', JStr ''boolean'')])\<rparr>"

definition Switch :: thing where
  "Switch =
     addAvailableAction (Thing_new ''Switch'' ''Switch'' [] []) ''toggle'' (Some toggle_metadata)
       ''toggle''"









definition put_request :: "string \<Rightarrow> payload \<Rightarrow> request" where
  "put_request name p = base_request\<lparr>req_propertyName := name, req_payload := p\<rparr>"



section \<open>Decimal strings\<close>

lemma show_nat_examples: "show_nat 0 = ''0'' \<and> show_nat 7 = ''7'' \<and> show_nat 42 = ''42''"
  by (simp add: digit_char_def)

lemma array_index_examples:
  "array_index ''1'' = Some 1 \<and> array_index ''10'' = Some 10 \<and> array_index ''01'' = None
   \<and> array_index ''on'' = None \<and> array_index '''' = None"
  by (simp add: array_index_def is_digit_def digits_val_def digit_val_def)

section \<open>Objects, notification and the registry\<close>

lemma obj_get_update:
  "hasOwnProperty obj k
     \<Longrightarrow> obj_get (obj_update obj k v) k' = (if k' = k then Some v else obj_get obj k')"
  by (induction obj) (auto simp: hasOwnProperty_def obj_get_def)

lemma obj_get_insert:
  "\<not> hasOwnProperty obj k
     \<Longrightarrow> obj_get (obj_insert obj k v) k' = (if k' = k then Some v else obj_get obj k')"
  by (induction obj) (auto simp: obj_get_def hasOwnProperty_def split: if_splits)

lemma obj_get_set: "obj_get (obj_set obj k v) k' = (if k' = k then Some v else obj_get obj k')"
  by (simp add: obj_set_def obj_get_update obj_get_insert)

lemma hasOwn_get: "hasOwnProperty obj k = (obj_get obj k \<noteq> None)"
  by (simp add: hasOwnProperty_def obj_get_def)

lemma hasOwn_set: "hasOwnProperty (obj_set obj k v) k' = (k' = k \<or> hasOwnProperty obj k')"
  by (simp add: hasOwn_get obj_get_set)

lemma hasOwn_keys: "hasOwnProperty obj k = (k \<in> set (obj_keys obj))"
  by (simp add: hasOwnProperty_def obj_keys_def map_of_eq_None_iff)


lemma keys_set: "set (obj_keys (obj_set obj k v)) = insert k (set (obj_keys obj))"
  using hasOwn_set[of obj k v] hasOwn_keys by blast


text \<open>
  A notification loop adds to the trace one \<open>Sent\<close> for every subscriber whose \<open>send\<close>
  returns, in the order of the set, and changes nothing else.
\<close>

lemma foldl_deliver:
  "foldl (deliver X m) t subs
     = t\<lparr>effects := effects t @ map (\<lambda>s. Sent s m) (filter (\<lambda>s. send_ok X s m) subs)\<rparr>"
  by (induction subs arbitrary: t) (auto simp: deliver_def)

lemma actionNotify_fields:
  "actions (actionNotify X t a) = actions t"
  "availableActions (actionNotify X t a) = availableActions t"
  by (simp_all add: actionNotify_def foldl_deliver)



section \<open>Reading and writing properties\<close>





text \<open>
  The end-to-end example: the property map of the Lamp is \<open>{"on": true}\<close>; after the PUT
  of \<open>{"on": false}\<close> it is \<open>{"on": false}\<close>.
\<close>

lemma on_off_end_to_end:
  "fst (CoapPropertiesHandler_get singleThingServer base_request)
     = Ok (res_json None (JObj [(''on'', JBool True)]))
   \<and> fst (CoapPropertiesHandler_get
            (snd (CoapPropertyHandler_put X0 singleThingServer
                    (put_request ''on'' (Json (JObj [(''on'', JBool False)])))))
            base_request)
     = Ok (res_json None (JObj [(''on'', JBool False)]))"
  by code_simp

section \<open>Events\<close>



section \<open>Actions in flight\<close>



lemma lists_present_new: "lists_present (Thing_new i ttl ty descr)"
  by (simp add: lists_present_def Thing_new_def obj_keys_def)

lemma lists_present_registration:
  "lists_present t \<Longrightarrow> lists_present (addProperty t p)"
  "lists_present t \<Longrightarrow> lists_present (addAvailableAction t name md cls)"
  "lists_present t \<Longrightarrow> lists_present (addAvailableEvent t name md)"
  by (auto simp: lists_present_def addProperty_def addAvailableAction_def addAvailableEvent_def
      keys_set)

lemma lists_present_performAction:
  "lists_present t \<Longrightarrow> lists_present (snd (performAction X aid t name inp))"
  by (auto simp: performAction_def Let_def lists_present_def actionNotify_fields keys_set
      split: option.splits)






section \<open>The description and its link format\<close>









text \<open>
  Claim C7. For every Thing and request, the rendered description has an \<open>href\<close> member if
  and only if the Thing's href is not \<open>/\<close>, and then it is the Thing's href; its \<open>base\<close> is
  the scheme \<open>coap\<close>, \<open>://\<close>, the request host and the Thing's href, concatenated; and it
  always has \<open>securityDefinitions\<close> equal to \<open>{nosec_sc: {scheme: 'nosec'}}\<close> and
  \<open>security\<close> equal to \<open>'nosec_sc'\<close>.
\<close>

theorem getDescription_fields:
  "(td_href (fst (getDescription X req t)) \<noteq> None \<longleftrightarrow> getHref t \<noteq> ''/'')
   \<and> (getHref t \<noteq> ''/'' \<longrightarrow> td_href (fst (getDescription X req t)) = Some (getHref t))
   \<and> td_base (fst (getDescription X req t))
       = Some (''coap'' @ ''://'' @ template (req_host req) @ getHref t)
   \<and> td_securityDefinitions (fst (getDescription X req t))
       = Some (JObj [(''nosec_sc'', JObj [(''scheme'', JStr ''nosec'')])])
   \<and> td_security (fst (getDescription X req t)) = Some ''nosec_sc''"
  by (simp add: getDescription_def asThingDescription_def getHref_def protocol_def)

theorem getDescription_fields_witness:
  "getHref Lamp = ''/''
   \<and> td_href (fst (getDescription X0 base_request Lamp)) = None
   \<and> td_base (fst (getDescription X0 base_request Lamp)) = Some ''coap://localhost/''
   \<and> getHref (setHrefPrefix Lamp ''/0'') = ''/0''
   \<and> td_href (fst (getDescription X0 base_request (setHrefPrefix Lamp ''/0''))) = Some ''/0''
   \<and> td_base (fst (getDescription X0 base_request (setHrefPrefix Lamp ''/0'')))
       = Some ''coap://localhost/0''
   \<and> td_securityDefinitions (fst (getDescription X0 base_request Lamp))
       = Some (JObj [(''nosec_sc'', JObj [(''scheme'', JStr ''nosec'')])])
   \<and> td_security (fst (getDescription X0 base_request Lamp)) = Some ''nosec_sc''"
proof -
  have h: "getHref Lamp = ''/''" "getHref (setHrefPrefix Lamp ''/0'') = ''/0''" by code_simp+
  have t: "template (req_host base_request) = ''localhost''" by code_simp
  from getDescription_fields[of X0 base_request Lamp]
    getDescription_fields[of X0 base_request "setHrefPrefix Lamp ''/0''"] h t
  show ?thesis by simp
qed






section \<open>The property PUT and the actions POST\<close>












end
